theory Spec2Isabelle
  imports Complex_Main
begin

section \<open>Values exchanged with the outside world\<close>

text \<open>
  The order API and the language model both answer in JSON, which Python reads into
  \<open>None\<close>, \<open>bool\<close>, \<open>int\<close>, \<open>float\<close>, \<open>str\<close>, \<open>list\<close> and \<open>dict\<close>.
  A dict is kept as an association list in insertion order; a lookup takes the first
  entry of a key (a parsed dict has each key once).

  A string inside a JSON value is a sequence of code points: \<open>json.loads\<close> turns the
  escape \<open>\ud83d\<close> into a lone surrogate, which no 8-bit character stands for. The
  literals of the program are written with \<open>str_of\<close>. Text typed at the console and
  the text of a reply of the language model stay 8-bit strings.
\<close>

type_synonym pystr = "nat list"

definition str_of :: "string \<Rightarrow> pystr" where
  "str_of s = map of_char s"

datatype float_val = Finite rat | PosInf | NegInf | NaN

datatype json =
    JNull
  | JBool bool
  | JInt int
  | JFloat float_val
  | JStr pystr
  | JList "json list"
  | JDict "(pystr \<times> json) list"

text \<open>The exceptions that the program's \<open>try\<close> blocks meet.\<close>

datatype exn =
    AttributeError
  | TypeError
  | KeyError
  | ValueError
  | JSONDecodeError
  | RequestException
  | RecursionError
  | UnicodeEncodeError
  | ServiceError

text \<open>Python's truth value of an object, as \<open>if x\<close> and \<open>not x\<close> test it.\<close>

fun truthy :: "json \<Rightarrow> bool" where
  "truthy JNull = False"
| "truthy (JBool b) = b"
| "truthy (JInt i) = (i \<noteq> 0)"
| "truthy (JFloat f) = (f \<noteq> Finite 0)"
| "truthy (JStr s) = (s \<noteq> [])"
| "truthy (JList xs) = (xs \<noteq> [])"
| "truthy (JDict d) = (d \<noteq> [])"

text \<open>\<open>isinstance(x, list)\<close> and \<open>isinstance(x, dict)\<close>.\<close>

fun is_list :: "json \<Rightarrow> bool" where
  "is_list (JList xs) = True"
| "is_list _ = False"

fun is_dict :: "json \<Rightarrow> bool" where
  "is_dict (JDict d) = True"
| "is_dict _ = False"

text \<open>
  \<open>x.get(k)\<close>: only a dict has the method (every other JSON value raises
  \<open>AttributeError\<close>), and a missing key gives \<open>None\<close>.
\<close>

fun py_get :: "json \<Rightarrow> pystr \<Rightarrow> exn + json" where
  "py_get (JDict d) k = (case map_of d k of None \<Rightarrow> Inr JNull | Some v \<Rightarrow> Inr v)"
| "py_get _ k = Inl AttributeError"

text \<open>
  \<open>x[k]\<close> with a string key: a dict without the key raises \<open>KeyError\<close>, and a list, a
  string or any other value raises \<open>TypeError\<close>.
\<close>

fun py_subscript :: "json \<Rightarrow> pystr \<Rightarrow> exn + json" where
  "py_subscript (JDict d) k = (case map_of d k of None \<Rightarrow> Inl KeyError | Some v \<Rightarrow> Inr v)"
| "py_subscript _ k = Inl TypeError"

text \<open>
  \<open>print\<close> writes to a standard output that encodes UTF-8 and is strict: a lone
  surrogate (U+D800 to U+DFFF) cannot be encoded and the call raises
  \<open>UnicodeEncodeError\<close>. A value formatted into an f-string is written as it is when
  it is a string; a list or a dict is written through \<open>repr\<close>, which escapes the
  surrogates inside it, and the other values are written in ASCII.
\<close>

definition is_surrogate :: "nat \<Rightarrow> bool" where
  "is_surrogate c = (0xD800 \<le> c \<and> c \<le> 0xDFFF)"

definition encodable :: "pystr \<Rightarrow> bool" where
  "encodable s = list_all (\<lambda>c. \<not> is_surrogate c) s"

fun print_value :: "json \<Rightarrow> bool" where
  "print_value (JStr s) = encodable s"
| "print_value _ = True"

section \<open>Time\<close>

text \<open>
  A \<open>datetime.date\<close> is its proleptic Gregorian ordinal (\<open>date.toordinal()\<close>), and a
  naive \<open>datetime.datetime\<close> is the number of microseconds of its wall-clock reading
  counted from the start of ordinal day 0: Python orders naive datetimes by
  (year, month, day, hour, minute, second, microsecond), which is the order of these
  numbers, and the difference of two naive datetimes is the \<open>timedelta\<close> of that many
  microseconds. An aware datetime carries its UTC offset in microseconds as well.
\<close>

type_synonym date = int

datatype datetime = Naive int | Aware int int

definition US_PER_DAY :: int where
  "US_PER_DAY = 86400000000"

text \<open>\<open>datetime.combine(d, time.min)\<close> and \<open>datetime.combine(d, time.max)\<close>.\<close>

definition combine_min :: "date \<Rightarrow> int" where
  "combine_min d = d * US_PER_DAY"

definition combine_max :: "date \<Rightarrow> int" where
  "combine_max d = d * US_PER_DAY + (US_PER_DAY - 1)"

text \<open>\<open>dt.date()\<close> drops the time of day and the offset.\<close>

fun date_of :: "datetime \<Rightarrow> date" where
  "date_of (Naive t) = t div US_PER_DAY"
| "date_of (Aware t off) = t div US_PER_DAY"

text \<open>The wall-clock reading of a datetime, whatever its offset.\<close>

fun wall :: "datetime \<Rightarrow> int" where
  "wall (Naive t) = t"
| "wall (Aware t off) = t"

text \<open>
  \<open>a <= b\<close> on datetimes: two naive values compare by wall clock, two aware values by
  UTC instant, and a naive value against an aware one raises \<open>TypeError\<close>.
\<close>

fun dt_le :: "datetime \<Rightarrow> datetime \<Rightarrow> exn + bool" where
  "dt_le (Naive a) (Naive b) = Inr (a \<le> b)"
| "dt_le (Aware a oa) (Aware b ob) = Inr (a - oa \<le> b - ob)"
| "dt_le (Naive a) (Aware b ob) = Inl TypeError"
| "dt_le (Aware a oa) (Naive b) = Inl TypeError"

section \<open>The API client and its cache\<close>

text \<open>\<open>CACHE_DURATION = timedelta(minutes=5)\<close>, in microseconds.\<close>

definition CACHE_DURATION :: int where
  "CACHE_DURATION = 5 * 60 * 1000000"

text \<open>
  The module-level dict \<open>_api_cache\<close> with its two keys; \<open>None\<close> is \<open>None\<close>. The
  timestamp is the naive \<open>datetime.now()\<close> of the fetch.
\<close>

record api_cache =
  data :: "json list option"
  timestamp :: "int option"

definition initial_cache :: api_cache where
  "initial_cache = \<lparr>data = None, timestamp = None\<rparr>"

text \<open>
  What \<open>requests.get\<close> followed by \<open>response.json()\<close> can give: the request fails in
  transport (a \<open>RequestException\<close>), or a response arrives with a status code and a body
  on which \<open>response.json()\<close> returns a value or raises. A body that is not JSON makes
  it raise \<open>JSONDecodeError\<close>; the decoder can also raise other exceptions
  (\<open>RecursionError\<close> on deep nesting, a plain \<open>ValueError\<close> on a number with too many
  digits). \<open>raise_for_status()\<close> raises for the status codes 400 to 599 and for no
  other.
\<close>

datatype http_result = ConnectionFailed | Response nat "exn + json"

definition raise_for_status :: "nat \<Rightarrow> bool" where
  "raise_for_status status = (400 \<le> status \<and> status < 600)"

text \<open>
  Lines 91 to 96: the two handlers of \<open>get_sales_data\<close>. Every other exception leaves
  the function. The first handler prints the message of the exception, which
  \<open>requests\<close> builds from decoded text and which holds no surrogate.
\<close>

definition caught :: "exn \<Rightarrow> bool" where
  "caught e = (e = RequestException \<or> e = JSONDecodeError)"

text \<open>
  Lines 46 to 49: the cached list is served when both entries are truthy and the entry
  is younger than \<open>CACHE_DURATION\<close>. A list is truthy when it is not empty; a datetime
  always is.
\<close>

definition cache_lookup :: "api_cache \<Rightarrow> int \<Rightarrow> json list option" where
  "cache_lookup c now =
     (case data c of
        None \<Rightarrow> None
      | Some xs \<Rightarrow>
          if xs = [] then None
          else (case timestamp c of
                  None \<Rightarrow> None
                | Some ts \<Rightarrow> if now - ts < CACHE_DURATION then Some xs else None))"

text \<open>
  Lines 58 to 83: where the order list is in the decoded body. \<open>list_under d k\<close> is the
  test \<open>k in data and isinstance(data.get(k), list)\<close> together with the value \<open>data[k]\<close>.
  The two error branches print the body before they return \<open>None\<close>: a dict goes
  through \<open>repr\<close>, and a body that is neither a dict nor a list is written as it is
  (line 82), which raises when it is a string that cannot be encoded.
\<close>

definition list_under :: "(pystr \<times> json) list \<Rightarrow> pystr \<Rightarrow> json list option" where
  "list_under d k = (case map_of d k of Some (JList xs) \<Rightarrow> Some xs | _ \<Rightarrow> None)"

definition orders_list_of :: "json \<Rightarrow> exn + json list option" where
  "orders_list_of body =
     (case body of
        JDict d \<Rightarrow>
          (case list_under d (str_of ''data'') of
             Some xs \<Rightarrow> Inr (Some xs)
           | None \<Rightarrow>
               (case list_under d (str_of ''results'') of
                  Some xs \<Rightarrow> Inr (Some xs)
                | None \<Rightarrow>
                    (case list_under d (str_of ''orders'') of
                       Some xs \<Rightarrow> Inr (Some xs)
                     | None \<Rightarrow> Inr None)))
      | JList xs \<Rightarrow> Inr (Some xs)
      | _ \<Rightarrow> if print_value body then Inr None else Inl UnicodeEncodeError)"

text \<open>
  One call of \<open>get_sales_data\<close>: what it returns (\<open>Inr\<close>) or the exception that leaves
  it (\<open>Inl\<close>), the cache it leaves, and how many requests it sent to the order API.
\<close>

record outcome =
  returned :: "exn + json list option"
  cache_after :: api_cache
  requests :: nat

text \<open>An exception raised inside the \<open>try\<close> of lines 52 to 96.\<close>

definition raised_in_try :: "exn \<Rightarrow> api_cache \<Rightarrow> outcome" where
  "raised_in_try e c =
     \<lparr>returned = (if caught e then Inr None else Inl e), cache_after = c, requests = 1\<rparr>"

definition get_sales_data :: "http_result \<Rightarrow> int \<Rightarrow> api_cache \<Rightarrow> outcome" where
  "get_sales_data http now c =
     (case cache_lookup c now of
        Some xs \<Rightarrow> \<lparr>returned = Inr (Some xs), cache_after = c, requests = 0\<rparr>
      | None \<Rightarrow>
          (case http of
             ConnectionFailed \<Rightarrow> raised_in_try RequestException c
           | Response status decoded \<Rightarrow>
               if raise_for_status status then raised_in_try RequestException c
               else
                 (case decoded of
                    Inl e \<Rightarrow> raised_in_try e c
                  | Inr b \<Rightarrow>
                      (case orders_list_of b of
                         Inl e \<Rightarrow> raised_in_try e c
                       | Inr None \<Rightarrow> \<lparr>returned = Inr None, cache_after = c, requests = 1\<rparr>
                       | Inr (Some orders_list) \<Rightarrow>
                           \<lparr>returned = Inr (Some orders_list),
                            cache_after = \<lparr>data = Some orders_list, timestamp = Some now\<rparr>,
                            requests = 1\<rparr>))))"

text \<open>
  The normalisation rule in the specification's words: a sequence is used as it is; in a
  keyed structure the first key among \<open>data\<close>, \<open>results\<close>, \<open>orders\<close> whose value is a
  sequence gives the list; everything else is absent.
\<close>

definition holds_list :: "(pystr \<times> json) list \<Rightarrow> pystr \<Rightarrow> bool" where
  "holds_list d k = (case map_of d k of Some v \<Rightarrow> is_list v | None \<Rightarrow> False)"

definition normalize_spec :: "json \<Rightarrow> json list option" where
  "normalize_spec body =
     (case body of
        JList xs \<Rightarrow> Some xs
      | JDict d \<Rightarrow>
          (case find (holds_list d) [str_of ''data'', str_of ''results'', str_of ''orders''] of
             Some k \<Rightarrow> list_under d k
           | None \<Rightarrow> None)
      | _ \<Rightarrow> None)"

text \<open>The invariant of the cache entry: both fields are set or neither is.\<close>

definition cache_inv :: "api_cache \<Rightarrow> bool" where
  "cache_inv c = ((data c = None) = (timestamp c = None))"

section \<open>Filtering orders by date\<close>

text \<open>
  \<open>dateutil.parser.isoparse\<close> is library code: on a string it is a parameter of the
  model, a function that gives a datetime or raises. Every JSON value that is not a
  string makes it raise (the class of the exception is only printed, never inspected).
\<close>

type_synonym parser = "pystr \<Rightarrow> exn + datetime"

fun isoparse_value :: "parser \<Rightarrow> json \<Rightarrow> exn + datetime" where
  "isoparse_value isoparse (JStr s) = isoparse s"
| "isoparse_value isoparse _ = Inl TypeError"

text \<open>
  Lines 160 to 170, the body of the \<open>try\<close> for one locked order: \<open>Inr True\<close> when the
  order is appended, \<open>Inr False\<close> when it is passed over (the \<open>continue\<close>, or a
  timestamp outside the range), \<open>Inl\<close> when an exception reaches the handler. The
  second component lists the values handed to \<open>isoparse\<close>.
\<close>

definition try_created :: "parser \<Rightarrow> int \<Rightarrow> int \<Rightarrow> json \<Rightarrow> (exn + bool) \<times> json list" where
  "try_created isoparse start_dt end_dt order =
     (case py_get order (str_of ''createdTime'') of
        Inl e \<Rightarrow> (Inl e, [])
      | Inr created_time_str \<Rightarrow>
          if \<not> truthy created_time_str then (Inr False, [])
          else
            (case isoparse_value isoparse created_time_str of
               Inl e \<Rightarrow> (Inl e, [created_time_str])
             | Inr created_dt \<Rightarrow>
                 (case dt_le (Naive start_dt) created_dt of
                    Inl e \<Rightarrow> (Inl e, [created_time_str])
                  | Inr lower \<Rightarrow>
                      if \<not> lower then (Inr False, [created_time_str])
                      else
                        (case dt_le created_dt (Naive end_dt) of
                           Inl e \<Rightarrow> (Inl e, [created_time_str])
                         | Inr upper \<Rightarrow> (Inr upper, [created_time_str])))))"

text \<open>
  Lines 158 to 172, one round of the loop. The test of \<open>state\<close> is outside the \<open>try\<close>,
  so its exception leaves the function. The handler prints \<open>order.get('orderId')\<close> and
  the message of the exception (ASCII for the exceptions of \<open>isoparse\<close> and of the
  comparison) and goes on to the next order; when the print raises, its exception
  leaves the function.
\<close>

definition order_step :: "parser \<Rightarrow> int \<Rightarrow> int \<Rightarrow> json \<Rightarrow> exn + (bool \<times> json list)" where
  "order_step isoparse start_dt end_dt order =
     (case py_get order (str_of ''state'') of
        Inl e \<Rightarrow> Inl e
      | Inr st \<Rightarrow>
          if st = JStr (str_of ''locked'') then
            (case try_created isoparse start_dt end_dt order of
               (Inr keep, parsed) \<Rightarrow> Inr (keep, parsed)
             | (Inl e, parsed) \<Rightarrow>
                 (case py_get order (str_of ''orderId'') of
                    Inl e' \<Rightarrow> Inl e'
                  | Inr order_id \<Rightarrow>
                      if print_value order_id then Inr (False, parsed)
                      else Inl UnicodeEncodeError))
          else Inr (False, []))"

text \<open>
  The \<open>for\<close> loop, with \<open>filtered_orders\<close> and the list of values handed to
  \<open>isoparse\<close> so far.
\<close>

fun filter_loop :: "parser \<Rightarrow> int \<Rightarrow> int \<Rightarrow> json list \<Rightarrow> json list \<times> json list \<Rightarrow>
    exn + (json list \<times> json list)" where
  "filter_loop isoparse start_dt end_dt [] st = Inr st"
| "filter_loop isoparse start_dt end_dt (order # rest) (filtered_orders, parsed) =
     (case order_step isoparse start_dt end_dt order of
        Inl e \<Rightarrow> Inl e
      | Inr (keep, ps) \<Rightarrow>
          filter_loop isoparse start_dt end_dt rest
            (if keep then filtered_orders @ [order] else filtered_orders, parsed @ ps))"

definition filter_orders_traced :: "parser \<Rightarrow> json list \<Rightarrow> date \<Rightarrow> date \<Rightarrow>
    exn + (json list \<times> json list)" where
  "filter_orders_traced isoparse all_orders start_date end_date =
     (let start_dt = combine_min start_date;
          end_dt = combine_max end_date
      in if all_orders = [] then Inr ([], [])
         else filter_loop isoparse start_dt end_dt all_orders ([], []))"

text \<open>What \<open>filter_orders_by_date\<close> returns, or the exception that leaves it.\<close>

definition filter_orders_by_date :: "parser \<Rightarrow> json list \<Rightarrow> date \<Rightarrow> date \<Rightarrow> exn + json list" where
  "filter_orders_by_date isoparse all_orders start_date end_date =
     map_sum id fst (filter_orders_traced isoparse all_orders start_date end_date)"

text \<open>
  The inclusion rule in the specification's words: the state is the sentinel
  \<open>locked\<close>, and the parsed \<open>createdTime\<close> lies between the first instant of
  \<open>start_date\<close> and the last instant of \<open>end_date\<close>. An order has a parsed
  \<open>createdTime\<close> when the field holds a string that the parser accepts; the timestamp
  is read as naive, with no offset conversion, so only its wall-clock reading counts.
\<close>

definition state_locked :: "json \<Rightarrow> bool" where
  "state_locked order = (py_get order (str_of ''state'') = Inr (JStr (str_of ''locked'')))"

definition parsed_created :: "parser \<Rightarrow> json \<Rightarrow> datetime option" where
  "parsed_created isoparse order =
     (case py_get order (str_of ''createdTime'') of
        Inr (JStr s) \<Rightarrow> (case isoparse s of Inr dt \<Rightarrow> Some dt | Inl e \<Rightarrow> None)
      | _ \<Rightarrow> None)"

definition in_range :: "date \<Rightarrow> date \<Rightarrow> datetime option \<Rightarrow> bool" where
  "in_range start_date end_date created =
     (case created of
        Some dt \<Rightarrow> combine_min start_date \<le> wall dt \<and> wall dt \<le> combine_max end_date
      | None \<Rightarrow> False)"

definition included :: "parser \<Rightarrow> date \<Rightarrow> date \<Rightarrow> json \<Rightarrow> bool" where
  "included isoparse start_date end_date order =
     (state_locked order \<and> in_range start_date end_date (parsed_created isoparse order))"

text \<open>
  The orders the data model describes: the timestamp carries no offset. The orders of
  which nothing is printed: the timestamp parses to a naive datetime. And the orders
  whose identifier can be written to standard output.
\<close>

definition offset_free :: "parser \<Rightarrow> json \<Rightarrow> bool" where
  "offset_free isoparse order =
     (case parsed_created isoparse order of
        Some (Aware t off) \<Rightarrow> False
      | _ \<Rightarrow> True)"

definition parses_naive :: "parser \<Rightarrow> json \<Rightarrow> bool" where
  "parses_naive isoparse order =
     (case parsed_created isoparse order of
        Some (Naive t) \<Rightarrow> True
      | _ \<Rightarrow> False)"

definition order_id_prints :: "json \<Rightarrow> bool" where
  "order_id_prints order =
     (case py_get order (str_of ''orderId'') of
        Inr order_id \<Rightarrow> print_value order_id
      | Inl e \<Rightarrow> True)"

section \<open>Resolving the date range\<close>

text \<open>
  \<open>str.strip()\<close> removes leading and trailing whitespace and \<open>str.replace(old, new)\<close>
  replaces the occurrences of \<open>old\<close> from left to right without overlap. A character
  here is one of the 256 first code points; the whitespace among them is listed.
\<close>

definition is_space :: "char \<Rightarrow> bool" where
  "is_space c = (c \<in> set [CHR 0x09, CHR 0x0A, CHR 0x0B, CHR 0x0C, CHR 0x0D,
                          CHR 0x1C, CHR 0x1D, CHR 0x1E, CHR 0x1F, CHR 0x20, CHR 0x85, CHR 0xA0])"

definition py_strip :: "string \<Rightarrow> string" where
  "py_strip s = rev (dropWhile is_space (rev (dropWhile is_space s)))"

function py_replace :: "string \<Rightarrow> string \<Rightarrow> string \<Rightarrow> string" where
  "py_replace old new [] = (if old = [] then new else [])"
| "py_replace old new (c # cs) =
     (if old = [] then new @ c # py_replace old new cs
      else if take (length old) (c # cs) = old
           then new @ py_replace old new (drop (length old) (c # cs))
           else c # py_replace old new cs)"
  by pat_completeness auto
termination
  by (relation "measure (\<lambda>(old, new, s). length s)") auto

text \<open>Line 129: \<open>response.text.strip().replace("```json", "").replace("```", "")\<close>.\<close>

definition FENCE :: string where
  "FENCE = [CHR 0x60, CHR 0x60, CHR 0x60]"

definition clean_reply :: "string \<Rightarrow> string" where
  "clean_reply text = py_replace FENCE [] (py_replace (FENCE @ ''json'') [] (py_strip text))"

text \<open>
  Lines 123 to 136, the body of the \<open>try\<close>. The model's reply is either an exception or
  a response whose \<open>text\<close> is a string or \<open>None\<close>; \<open>json.loads\<close> is library code and a
  parameter, like \<open>isoparse\<close>.
\<close>

type_synonym loader = "string \<Rightarrow> exn + json"

definition date_range_try :: "parser \<Rightarrow> loader \<Rightarrow> exn + string option \<Rightarrow> exn + (date \<times> date)" where
  "date_range_try isoparse json_loads reply =
     (case reply of
        Inl e \<Rightarrow> Inl e
      | Inr None \<Rightarrow> Inl AttributeError
      | Inr (Some text) \<Rightarrow>
          (case json_loads (clean_reply text) of
             Inl e \<Rightarrow> Inl e
           | Inr dates \<Rightarrow>
               (case py_subscript dates (str_of ''start_date'') of
                  Inl e \<Rightarrow> Inl e
                | Inr s \<Rightarrow>
                    (case isoparse_value isoparse s of
                       Inl e \<Rightarrow> Inl e
                     | Inr start_dt \<Rightarrow>
                         (case py_subscript dates (str_of ''end_date'') of
                            Inl e \<Rightarrow> Inl e
                          | Inr t \<Rightarrow>
                              (case isoparse_value isoparse t of
                                 Inl e \<Rightarrow> Inl e
                               | Inr end_dt \<Rightarrow> Inr (date_of start_dt, date_of end_dt)))))))"

text \<open>
  The prompt is fixed by the day read on line 104 and by the query, so the service is a
  function of the two. The handler reads the day again (line 140).
\<close>

definition get_date_range_from_llm :: "parser \<Rightarrow> loader \<Rightarrow> (date \<Rightarrow> string \<Rightarrow> exn + string option) \<Rightarrow>
    date \<Rightarrow> date \<Rightarrow> string \<Rightarrow> date \<times> date" where
  "get_date_range_from_llm isoparse json_loads generate_content today today_in_handler user_query =
     (case date_range_try isoparse json_loads (generate_content today user_query) of
        Inr resolved \<Rightarrow> resolved
      | Inl e \<Rightarrow> (today_in_handler, today_in_handler))"

text \<open>
  A date field of the reply in the specification's words: the reply is an object, the
  field is there, and it holds a string that parses to a date.
\<close>

definition date_field :: "parser \<Rightarrow> json \<Rightarrow> pystr \<Rightarrow> date option" where
  "date_field isoparse dates k =
     (case dates of
        JDict d \<Rightarrow>
          (case map_of d k of
             Some (JStr s) \<Rightarrow> (case isoparse s of Inr dt \<Rightarrow> Some (date_of dt) | Inl e \<Rightarrow> None)
           | _ \<Rightarrow> None)
      | _ \<Rightarrow> None)"

section \<open>The analysis call\<close>



section \<open>Runs and sample inputs\<close>

text \<open>
  The session loop calls \<open>get_sales_data\<close> once per turn; each call has its own clock
  reading and its own answer of the network, and the cache is handed from call to call.
\<close>

fun cache_after_calls :: "(http_result \<times> int) list \<Rightarrow> api_cache \<Rightarrow> api_cache" where
  "cache_after_calls [] c = c"
| "cache_after_calls ((http, now) # calls) c =
     cache_after_calls calls (cache_after (get_sales_data http now c))"

text \<open>
  When a request is sent, it fails for the caller if it fails in transport, if
  \<open>raise_for_status\<close> raises, or if the decoder rejects the body as not JSON.
\<close>

fun request_failed :: "http_result \<Rightarrow> bool" where
  "request_failed ConnectionFailed = True"
| "request_failed (Response status decoded) =
     (raise_for_status status \<or> decoded = Inl JSONDecodeError)"


text \<open>
  For concrete runs, a parser that knows the timestamps of the examples, with the
  values \<open>isoparse\<close> gives them (1 November 2025 is day 739556), and rejects every other
  string; and a loader that knows one document.
\<close>

definition sample_isoparse :: parser where
  "sample_isoparse s =
     (if s = str_of ''2025-11-01'' then Inr (Naive (739556 * US_PER_DAY))
      else if s = str_of ''2025-11-01T10:00:00''
        then Inr (Naive (739556 * US_PER_DAY + 36000000000))
      else if s = str_of ''2025-11-01T23:59:59.999999''
        then Inr (Naive (739556 * US_PER_DAY + 86399999999))
      else if s = str_of ''2025-11-02T00:00:00'' then Inr (Naive (739557 * US_PER_DAY))
      else if s = str_of ''2025-11-01T10:00:00Z''
        then Inr (Aware (739556 * US_PER_DAY + 36000000000) 0)
      else Inl ValueError)"

definition sample_document :: string where
  "sample_document =
     ''{'' @ [CHR 0x22] @ ''start_date'' @ [CHR 0x22] @ '': '' @ [CHR 0x22] @ ''2025-11-01'' @ [CHR 0x22] @
     '', '' @ [CHR 0x22] @ ''end_date'' @ [CHR 0x22] @ '': '' @ [CHR 0x22] @ ''2025-11-01'' @ [CHR 0x22] @ ''}''"

definition sample_json_loads :: loader where
  "sample_json_loads s =
     (if s = [CHR 0x0A] @ sample_document @ [CHR 0x0A]
      then Inr (JDict [(str_of ''start_date'', JStr (str_of ''2025-11-01'')),
                       (str_of ''end_date'', JStr (str_of ''2025-11-01''))])
      else Inl JSONDecodeError)"

definition sample_reply :: string where
  "sample_reply = FENCE @ ''json'' @ [CHR 0x0A] @ sample_document @ [CHR 0x0A] @ FENCE @ [CHR 0x0A]"

text \<open>
  A date service that follows the documented example for the query \<open>today\<close>, answers
  prose to one other query, and fails on the rest; and an analysis service that cannot
  be reached.
\<close>

definition sample_service :: "date \<Rightarrow> string \<Rightarrow> exn + string option" where
  "sample_service today user_query =
     (if user_query = ''today'' then Inr (Some sample_reply)
      else if user_query = ''asdkfj'' then Inr (Some ''no idea'')
      else Inl ServiceError)"


section \<open>Properties of the values\<close>

lemma str_of_eq_iff [simp]: "(str_of a = str_of b) = (a = b)"
  by (simp add: str_of_def inj_map_eq_map inj_def)

lemma str_of_Nil_iff [simp]: "(str_of s = []) = (s = [])"
  by (simp add: str_of_def)

lemma Nil_str_of_iff [simp]: "([] = str_of s) = (s = [])"
  by (auto simp: str_of_def)

lemma of_char_below_256: "(of_char (c::char) :: nat) < 256"
  by (simp add: of_char_def)

lemma encodable_str_of [simp]: "encodable (str_of s)"
proof -
  have "\<not> is_surrogate (of_char c)" for c :: char
  proof -
    have "(of_char c :: nat) < 256" by (rule of_char_below_256)
    then show ?thesis unfolding is_surrogate_def by linarith
  qed
  then show ?thesis
    by (simp add: encodable_def str_of_def list_all_iff)
qed

section \<open>Properties of the API client\<close>

lemma holds_list_iff: "holds_list d k = (list_under d k \<noteq> None)"
  by (auto simp: holds_list_def list_under_def split: option.splits json.splits)

lemma orders_list_of_normalize:
  "orders_list_of body =
     (if is_list body \<or> is_dict body \<or> print_value body then Inr (normalize_spec body)
      else Inl UnicodeEncodeError)"
proof (cases body)
  case (JDict d)
  then show ?thesis
    by (auto simp: orders_list_of_def normalize_spec_def holds_list_iff split: option.splits)
qed (simp_all add: orders_list_of_def normalize_spec_def)

lemma get_sales_data_hit:
  "cache_lookup c now = Some xs \<Longrightarrow>
   get_sales_data http now c = \<lparr>returned = Inr (Some xs), cache_after = c, requests = 0\<rparr>"
  by (simp add: get_sales_data_def)

lemma cache_lookup_nonempty:
  "data c = Some xs \<Longrightarrow> xs \<noteq> [] \<Longrightarrow> timestamp c = Some ts \<Longrightarrow> now - ts < CACHE_DURATION \<Longrightarrow>
   cache_lookup c now = Some xs"
  by (simp add: cache_lookup_def)

text \<open>
  Whenever the body is a list, a dict, or a value that can be printed, a request
  answered with a 2xx status returns what the specification's normalisation rule gives
  for the body, and the list is stored with the current time exactly when there is one.
\<close>

lemma get_sales_data_normalizes_printable:
  assumes "cache_lookup c now = None" and "200 \<le> status" and "status < 300"
    and "is_list body \<or> is_dict body \<or> print_value body"
  shows "get_sales_data (Response status (Inr body)) now c =
           \<lparr>returned = Inr (normalize_spec body),
            cache_after = (case normalize_spec body of
                             None \<Rightarrow> c
                           | Some xs \<Rightarrow> \<lparr>data = Some xs, timestamp = Some now\<rparr>),
            requests = 1\<rparr>"
  using assms
  by (simp add: get_sales_data_def raise_for_status_def orders_list_of_normalize
      split: option.splits)

lemma get_sales_data_cache_cases:
  "cache_after (get_sales_data http now c) = c \<and>
     returned (get_sales_data http now c) = Inr (cache_lookup c now) \<and>
     requests (get_sales_data http now c) = 0 \<and> cache_lookup c now \<noteq> None
   \<or> requests (get_sales_data http now c) = 1 \<and>
     (\<exists>xs. returned (get_sales_data http now c) = Inr (Some xs) \<and>
        cache_after (get_sales_data http now c) = \<lparr>data = Some xs, timestamp = Some now\<rparr>)
   \<or> requests (get_sales_data http now c) = 1 \<and>
     returned (get_sales_data http now c) = Inr None \<and>
     cache_after (get_sales_data http now c) = c
   \<or> requests (get_sales_data http now c) = 1 \<and>
     (\<exists>e. returned (get_sales_data http now c) = Inl e) \<and>
     cache_after (get_sales_data http now c) = c"
  by (auto simp: get_sales_data_def raised_in_try_def
      split: option.splits http_result.splits sum.splits)

text \<open>
  C1. A call made while the cache holds a fetched order sequence younger than five
  minutes should return that sequence and send no request. The code tests the cached
  list for truth, so a cached empty sequence (the API answered \<open>[]\<close> one second ago) is
  not served: the call sends a request, and when that request fails it returns
  \<open>None\<close> instead of the cached sequence.
\<close>

theorem get_sales_data_empty_cache_refetches:
  "requests (get_sales_data ConnectionFailed 1000000 \<lparr>data = Some [], timestamp = Some 0\<rparr>) = 1
   \<and> returned (get_sales_data ConnectionFailed 1000000 \<lparr>data = Some [], timestamp = Some 0\<rparr>) = Inr None"
  by (simp add: get_sales_data_def cache_lookup_def raised_in_try_def caught_def)

text \<open>
  C3. A body that is neither a list nor a dict should make the call return \<open>None\<close>.
  When the body is the JSON string \<open>"\ud83d"\<close>, a lone surrogate, the print of line 82
  raises \<open>UnicodeEncodeError\<close> before the \<open>return None\<close> of line 83, neither handler
  catches it, and the exception leaves \<open>get_sales_data\<close>.
\<close>

theorem get_sales_data_unprintable_body_raises:
  "get_sales_data (Response 200 (Inr (JStr [0xD83D]))) 7 initial_cache =
     \<lparr>returned = Inl UnicodeEncodeError, cache_after = initial_cache, requests = 1\<rparr>"
  by (simp add: get_sales_data_def cache_lookup_def initial_cache_def raise_for_status_def
      orders_list_of_def encodable_def is_surrogate_def raised_in_try_def caught_def)

text \<open>
  C6, as stated, fails. \<open>raise_for_status\<close> raises for 4xx and 5xx only, so a response
  with status 300 and a JSON list as its body is accepted, returned and cached. And a
  body on which the decoder raises \<open>RecursionError\<close> instead of a JSON decode error is
  caught by neither handler: the exception leaves the call.
\<close>

theorem get_sales_data_status_300_counterexample:
  "get_sales_data (Response 300 (Inr (JList [JDict [(str_of ''orderId'', JStr (str_of ''A1''))]]))) 7
       initial_cache
     = \<lparr>returned = Inr (Some [JDict [(str_of ''orderId'', JStr (str_of ''A1''))]]),
        cache_after = \<lparr>data = Some [JDict [(str_of ''orderId'', JStr (str_of ''A1''))]],
                       timestamp = Some 7\<rparr>,
        requests = 1\<rparr>
   \<and> get_sales_data (Response 200 (Inl RecursionError)) 7 initial_cache
     = \<lparr>returned = Inl RecursionError, cache_after = initial_cache, requests = 1\<rparr>"
  by (simp add: get_sales_data_def cache_lookup_def initial_cache_def raise_for_status_def
      orders_list_of_def raised_in_try_def caught_def)

text \<open>
  C6, amended. Whenever the request to the order API fails in transport, is answered
  with a 4xx or 5xx status, or has a body that the decoder rejects with a JSON decode
  error, \<open>get_sales_data\<close> returns \<open>None\<close> and leaves both fields of the cache exactly
  as they were.
\<close>

theorem get_sales_data_failure_keeps_cache:
  assumes "cache_lookup c now = None" and "request_failed http"
  shows "get_sales_data http now c = \<lparr>returned = Inr None, cache_after = c, requests = 1\<rparr>"
  using assms by (cases http) (auto simp: get_sales_data_def raised_in_try_def caught_def)

theorem get_sales_data_failure_keeps_cache_witness:
  "cache_lookup \<lparr>data = Some [JInt 1], timestamp = Some 0\<rparr> 300000000 = None
   \<and> request_failed (Response 503 (Inr (JList [])))
   \<and> request_failed (Response 200 (Inl JSONDecodeError))
   \<and> request_failed ConnectionFailed
   \<and> get_sales_data (Response 503 (Inr (JList []))) 300000000 \<lparr>data = Some [JInt 1], timestamp = Some 0\<rparr>
       = \<lparr>returned = Inr None, cache_after = \<lparr>data = Some [JInt 1], timestamp = Some 0\<rparr>, requests = 1\<rparr>
   \<and> get_sales_data (Response 200 (Inl JSONDecodeError)) 300000000 \<lparr>data = Some [JInt 1], timestamp = Some 0\<rparr>
       = \<lparr>returned = Inr None, cache_after = \<lparr>data = Some [JInt 1], timestamp = Some 0\<rparr>, requests = 1\<rparr>
   \<and> get_sales_data ConnectionFailed 300000000 \<lparr>data = Some [JInt 1], timestamp = Some 0\<rparr>
       = \<lparr>returned = Inr None, cache_after = \<lparr>data = Some [JInt 1], timestamp = Some 0\<rparr>, requests = 1\<rparr>"
proof -
  let ?c = "\<lparr>data = Some [JInt 1], timestamp = Some 0\<rparr>"
  have h: "cache_lookup ?c 300000000 = None"
    by (simp add: cache_lookup_def CACHE_DURATION_def)
  have f1: "request_failed (Response 503 (Inr (JList [])))"
    by (simp add: raise_for_status_def)
  have f2: "request_failed (Response 200 (Inl JSONDecodeError))" by simp
  have f3: "request_failed ConnectionFailed" by simp
  show ?thesis
    using h f1 f2 f3
      get_sales_data_failure_keeps_cache [OF h f1]
      get_sales_data_failure_keeps_cache [OF h f2]
      get_sales_data_failure_keeps_cache [OF h f3]
    by simp
qed

lemma cache_inv_step: "cache_inv c \<Longrightarrow> cache_inv (cache_after (get_sales_data http now c))"
  using get_sales_data_cache_cases [of http now c] by (auto simp: cache_inv_def)

lemma cache_inv_calls: "cache_inv c \<Longrightarrow> cache_inv (cache_after_calls calls c)"
  by (induction calls arbitrary: c) (auto simp: cache_inv_step)

text \<open>
  C8. The invariant of the cache entry (\<open>data\<close> is set if and only if \<open>timestamp\<close> is)
  holds at the start, after any sequence of calls of \<open>get_sales_data\<close>, and across each
  single call; a fetch that succeeds writes both fields together, and a call that
  returns \<open>None\<close> or that an exception leaves changes neither.
\<close>

theorem cache_invariant_preserved:
  "cache_inv initial_cache
   \<and> cache_inv (cache_after_calls calls initial_cache)
   \<and> (cache_inv c \<longrightarrow> cache_inv (cache_after (get_sales_data http now c)))
   \<and> (\<forall>xs. requests (get_sales_data http now c) = 1 \<and>
           returned (get_sales_data http now c) = Inr (Some xs)
         \<longrightarrow> cache_after (get_sales_data http now c) = \<lparr>data = Some xs, timestamp = Some now\<rparr>)
   \<and> (returned (get_sales_data http now c) = Inr None \<longrightarrow> cache_after (get_sales_data http now c) = c)
   \<and> (\<forall>e. returned (get_sales_data http now c) = Inl e \<longrightarrow> cache_after (get_sales_data http now c) = c)"
proof -
  have i: "cache_inv initial_cache" by (simp add: cache_inv_def initial_cache_def)
  have a: "\<forall>xs. requests (get_sales_data http now c) = 1 \<and>
           returned (get_sales_data http now c) = Inr (Some xs)
         \<longrightarrow> cache_after (get_sales_data http now c) = \<lparr>data = Some xs, timestamp = Some now\<rparr>"
    using get_sales_data_cache_cases [of http now c] by auto
  have b: "returned (get_sales_data http now c) = Inr None \<longrightarrow> cache_after (get_sales_data http now c) = c"
    using get_sales_data_cache_cases [of http now c] by auto
  have e: "\<forall>e. returned (get_sales_data http now c) = Inl e \<longrightarrow> cache_after (get_sales_data http now c) = c"
    using get_sales_data_cache_cases [of http now c] by auto
  show ?thesis using i a b e cache_inv_step cache_inv_calls by blast
qed

theorem cache_invariant_preserved_witness:
  "cache_inv initial_cache
   \<and> requests (get_sales_data (Response 200 (Inr (JList [JInt 1]))) 7 initial_cache) = 1
   \<and> returned (get_sales_data (Response 200 (Inr (JList [JInt 1]))) 7 initial_cache) = Inr (Some [JInt 1])
   \<and> cache_after (get_sales_data (Response 200 (Inr (JList [JInt 1]))) 7 initial_cache)
       = \<lparr>data = Some [JInt 1], timestamp = Some 7\<rparr>
   \<and> cache_inv (cache_after (get_sales_data (Response 200 (Inr (JList [JInt 1]))) 7 initial_cache))
   \<and> returned (get_sales_data ConnectionFailed 7 initial_cache) = Inr None
   \<and> cache_after (get_sales_data ConnectionFailed 7 initial_cache) = initial_cache
   \<and> returned (get_sales_data (Response 200 (Inl RecursionError)) 7 initial_cache) = Inl RecursionError
   \<and> cache_after (get_sales_data (Response 200 (Inl RecursionError)) 7 initial_cache) = initial_cache"
proof -
  have r: "requests (get_sales_data (Response 200 (Inr (JList [JInt 1]))) 7 initial_cache) = 1
      \<and> returned (get_sales_data (Response 200 (Inr (JList [JInt 1]))) 7 initial_cache) = Inr (Some [JInt 1])"
    by (simp add: get_sales_data_def cache_lookup_def initial_cache_def raise_for_status_def
        orders_list_of_def)
  have n: "returned (get_sales_data ConnectionFailed 7 initial_cache) = Inr None"
    by (simp add: get_sales_data_def cache_lookup_def initial_cache_def raised_in_try_def caught_def)
  have x: "returned (get_sales_data (Response 200 (Inl RecursionError)) 7 initial_cache) = Inl RecursionError"
    by (simp add: get_sales_data_def cache_lookup_def initial_cache_def raised_in_try_def caught_def
        raise_for_status_def)
  show ?thesis
    using r n x
      cache_invariant_preserved [of "[]" initial_cache "Response 200 (Inr (JList [JInt 1]))" 7]
      cache_invariant_preserved [of "[]" initial_cache ConnectionFailed 7]
      cache_invariant_preserved [of "[]" initial_cache "Response 200 (Inl RecursionError)" 7]
    by (simp add: cache_inv_def)
qed


section \<open>Properties of the order filter\<close>

lemma filter_loop_append:
  "filter_loop p s e (xs @ ys) st =
     (case filter_loop p s e xs st of Inl x \<Rightarrow> Inl x | Inr st' \<Rightarrow> filter_loop p s e ys st')"
proof (induction xs arbitrary: st)
  case Nil
  then show ?case by simp
next
  case (Cons x xs)
  obtain acc lg where st: "st = (acc, lg)" by (cases st)
  show ?case
    by (simp add: st Cons.IH split: sum.splits prod.splits)
qed

lemma filter_orders_traced_loop:
  "filter_orders_traced p xs sd ed = filter_loop p (combine_min sd) (combine_max ed) xs ([], [])"
  by (cases xs) (simp_all add: filter_orders_traced_def Let_def)

lemma order_step_no_created:
  assumes "map_of d (str_of ''createdTime'') = None \<or>
           map_of d (str_of ''createdTime'') = Some (JStr [])"
  shows "order_step p s e (JDict d) = Inr (False, [])"
  using assms by (auto simp: order_step_def try_created_def split: option.splits)

lemma order_step_dict:
  assumes "parses_naive p (JDict d) \<or> order_id_prints (JDict d)"
  shows "\<exists>ps. order_step p (combine_min sd) (combine_max ed) (JDict d) =
     Inr (included p sd ed (JDict d) \<and> offset_free p (JDict d) \<and>
          map_of d (str_of ''createdTime'') \<noteq> Some (JStr []), ps)"
proof (cases "map_of d (str_of ''state'') = Some (JStr (str_of ''locked''))")
  case False
  then show ?thesis
    by (auto simp: order_step_def included_def state_locked_def split: option.splits)
next
  case True
  show ?thesis
  proof (cases "map_of d (str_of ''createdTime'')")
    case None
    with True show ?thesis
      by (simp add: order_step_def try_created_def included_def parsed_created_def in_range_def)
  next
    case (Some v)
    show ?thesis
    proof (cases v)
      case (JStr s)
      show ?thesis
      proof (cases "p s")
        case (Inl x)
        with True Some JStr assms show ?thesis
          by (auto simp: order_step_def try_created_def included_def parsed_created_def in_range_def
              order_id_prints_def parses_naive_def split: option.splits)
      next
        case (Inr dt)
        with True Some JStr assms show ?thesis
          by (cases dt)
             (auto simp: order_step_def try_created_def included_def parsed_created_def
               in_range_def state_locked_def offset_free_def order_id_prints_def parses_naive_def
               split: option.splits)
      qed
    qed (use True Some assms in \<open>auto simp: order_step_def try_created_def included_def
          parsed_created_def in_range_def order_id_prints_def parses_naive_def
          split: option.splits\<close>)
  qed
qed

lemma filter_loop_dicts:
  assumes "\<forall>x \<in> set xs. is_dict x \<and> (parses_naive p x \<or> order_id_prints x)"
  shows "\<exists>lg'. filter_loop p (combine_min sd) (combine_max ed) xs (acc, lg) =
           Inr (acc @ filter (\<lambda>x. included p sd ed x \<and> offset_free p x \<and>
                                  py_get x (str_of ''createdTime'') \<noteq> Inr (JStr [])) xs, lg')"
  using assms
proof (induction xs arbitrary: acc lg)
  case Nil
  then show ?case by simp
next
  case (Cons x xs)
  from Cons.prems obtain d where x: "x = JDict d" by (cases x) auto
  from Cons.prems x have "parses_naive p (JDict d) \<or> order_id_prints (JDict d)" by simp
  then obtain ps where st: "order_step p (combine_min sd) (combine_max ed) (JDict d) =
     Inr (included p sd ed (JDict d) \<and> offset_free p (JDict d) \<and>
          map_of d (str_of ''createdTime'') \<noteq> Some (JStr []), ps)"
    using order_step_dict by blast
  have g: "(py_get (JDict d) (str_of ''createdTime'') \<noteq> Inr (JStr [])) =
           (map_of d (str_of ''createdTime'') \<noteq> Some (JStr []))"
    by (simp split: option.splits)
  from Cons.prems have "\<forall>x \<in> set xs. is_dict x \<and> (parses_naive p x \<or> order_id_prints x)"
    by simp
  from Cons.IH [OF this, of "acc @ [JDict d]" "lg @ ps"] Cons.IH [OF this, of acc "lg @ ps"]
  show ?case
    by (auto simp add: x st g simp del: py_get.simps)
qed

lemma included_plain:
  assumes "p [] = Inl e0" and "offset_free p x"
  shows "(included p sd ed x \<and> offset_free p x \<and>
          py_get x (str_of ''createdTime'') \<noteq> Inr (JStr [])) = included p sd ed x"
  using assms by (auto simp: included_def parsed_created_def in_range_def)

lemma filter_loop_log_irrelevant:
  "map_sum id fst (filter_loop p s e xs (acc, l1)) = map_sum id fst (filter_loop p s e xs (acc, l2))"
proof (induction xs arbitrary: acc l1 l2)
  case Nil
  then show ?case by simp
next
  case (Cons x xs)
  show ?case
  proof (cases "order_step p s e x")
    case (Inl a)
    then show ?thesis by simp
  next
    case (Inr kp)
    obtain keep ps where "kp = (keep, ps)" by (cases kp)
    with Inr show ?thesis
      using Cons.IH [of "if keep then acc @ [x] else acc" "l1 @ ps" "l2 @ ps"] by simp
  qed
qed

lemma order_step_unparsed:
  assumes "parsed_created p (JDict d) = None" and "order_id_prints (JDict d)"
  shows "\<exists>ps. order_step p (combine_min sd) (combine_max ed) (JDict d) = Inr (False, ps)"
proof -
  have "\<not> included p sd ed (JDict d)"
    using assms(1) by (simp add: included_def in_range_def)
  then show ?thesis
    using order_step_dict [of p d sd ed] assms(2) by simp
qed

lemma filter_skip_result:
  assumes "order_step p s e x = Inr (False, ps)"
  shows "map_sum id fst (filter_loop p s e (pre @ x # post) st) =
         map_sum id fst (filter_loop p s e (pre @ post) st)"
proof (cases "filter_loop p s e pre st")
  case (Inl a)
  then show ?thesis by (simp add: filter_loop_append)
next
  case (Inr st')
  obtain acc lg where st': "st' = (acc, lg)" by (cases st')
  show ?thesis
    using filter_loop_log_irrelevant [of p s e post acc "lg @ ps" lg]
    by (simp add: filter_loop_append Inr st' assms)
qed

lemma filter_skip_traced:
  assumes "order_step p s e x = Inr (False, [])"
  shows "filter_loop p s e (pre @ x # post) st = filter_loop p s e (pre @ post) st"
proof (cases "filter_loop p s e pre st")
  case (Inl a)
  then show ?thesis by (simp add: filter_loop_append)
next
  case (Inr st')
  obtain acc lg where st': "st' = (acc, lg)" by (cases st')
  show ?thesis
    by (simp add: filter_loop_append Inr st' assms)
qed

text \<open>
  C2, as stated, fails. A locked order stamped \<open>2025-11-01T10:00:00Z\<close> lies in the
  range of 1 November 2025 when it is read as naive, but \<open>isoparse\<close> gives it an offset,
  the comparison with the naive bounds raises \<open>TypeError\<close>, and the handler drops the
  order. And on a record whose \<open>createdTime\<close> does not parse and whose \<open>orderId\<close> is a
  lone surrogate, the print of the handler raises and no list is returned.
\<close>

theorem filter_orders_by_date_offset_counterexample:
  "included sample_isoparse 739556 739556
     (JDict [(str_of ''state'', JStr (str_of ''locked'')),
             (str_of ''createdTime'', JStr (str_of ''2025-11-01T10:00:00Z''))])
   \<and> filter_orders_by_date sample_isoparse
       [JDict [(str_of ''state'', JStr (str_of ''locked'')),
               (str_of ''createdTime'', JStr (str_of ''2025-11-01T10:00:00Z''))]]
       739556 739556 = Inr []
   \<and> filter_orders_by_date sample_isoparse
       [JDict [(str_of ''orderId'', JStr [0xD83D]),
               (str_of ''state'', JStr (str_of ''locked'')),
               (str_of ''createdTime'', JStr (str_of ''not a date''))]]
       739556 739556 = Inl UnicodeEncodeError"
  by (simp add: included_def state_locked_def parsed_created_def in_range_def sample_isoparse_def
      combine_min_def combine_max_def US_PER_DAY_def
      filter_orders_by_date_def filter_orders_traced_def order_step_def try_created_def
      encodable_def is_surrogate_def)

text \<open>
  C2, amended. On a list of order records whose timestamps carry no offset and in
  which every order whose \<open>createdTime\<close> does not parse has an identifier that can be
  printed, with a parser that rejects the empty string, \<open>filter_orders_by_date\<close>
  returns exactly the orders, in their input order, whose
  \<open>state\<close> is \<open>locked\<close> and whose parsed \<open>createdTime\<close> lies between the first instant
  of \<open>start_date\<close> and the last instant of \<open>end_date\<close>, both included. A locked order
  at the last instant of \<open>end_date\<close> is included (in a range that is not inverted), and
  an order one microsecond later is not.
\<close>

theorem filter_orders_by_date_spec:
  assumes "\<forall>x \<in> set orders. is_dict x \<and> offset_free isoparse x \<and>
             (parses_naive isoparse x \<or> order_id_prints x)"
    and "isoparse [] = Inl e0"
  shows "filter_orders_by_date isoparse orders start_date end_date =
           Inr (filter (included isoparse start_date end_date) orders)
    \<and> (\<forall>x. start_date \<le> end_date \<and> state_locked x \<and>
            parsed_created isoparse x = Some (Naive (combine_max end_date))
          \<longrightarrow> included isoparse start_date end_date x)
    \<and> (\<forall>x. parsed_created isoparse x = Some (Naive (combine_max end_date + 1))
          \<longrightarrow> \<not> included isoparse start_date end_date x)"
proof -
  have d: "\<forall>x \<in> set orders. is_dict x \<and> (parses_naive isoparse x \<or> order_id_prints x)"
    using assms(1) by simp
  obtain lg where "filter_loop isoparse (combine_min start_date) (combine_max end_date) orders ([], []) =
      Inr ([] @ filter (\<lambda>x. included isoparse start_date end_date x \<and> offset_free isoparse x \<and>
                            py_get x (str_of ''createdTime'') \<noteq> Inr (JStr [])) orders, lg)"
    using filter_loop_dicts [OF d] by blast
  moreover have "filter (\<lambda>x. included isoparse start_date end_date x \<and> offset_free isoparse x \<and>
                            py_get x (str_of ''createdTime'') \<noteq> Inr (JStr [])) orders =
      filter (included isoparse start_date end_date) orders"
    using assms included_plain [of isoparse e0] by (intro filter_cong) auto
  ultimately have a: "filter_orders_by_date isoparse orders start_date end_date =
           Inr (filter (included isoparse start_date end_date) orders)"
    by (simp add: filter_orders_by_date_def filter_orders_traced_loop)
  have b: "\<forall>x. start_date \<le> end_date \<and> state_locked x \<and>
            parsed_created isoparse x = Some (Naive (combine_max end_date))
          \<longrightarrow> included isoparse start_date end_date x"
    by (auto simp: included_def in_range_def combine_min_def combine_max_def US_PER_DAY_def)
  have c: "\<forall>x. parsed_created isoparse x = Some (Naive (combine_max end_date + 1))
          \<longrightarrow> \<not> included isoparse start_date end_date x"
    by (simp add: included_def in_range_def)
  from a b c show ?thesis by blast
qed

text \<open>
  C7, as stated, fails: the function is not total on arbitrary lists. An element that
  is not a record (here \<open>null\<close>) has no \<open>get\<close>, the test of \<open>state\<close> is outside the
  \<open>try\<close>, and the exception leaves the function before the valid order after it is
  looked at. And a record whose \<open>createdTime\<close> does not parse and whose \<open>orderId\<close> is a
  lone surrogate makes the print of the handler raise, with the same effect.
\<close>

theorem filter_orders_by_date_non_record_counterexample:
  "filter_orders_by_date sample_isoparse
     [JNull,
      JDict [(str_of ''state'', JStr (str_of ''locked'')),
             (str_of ''createdTime'', JStr (str_of ''2025-11-01T10:00:00''))]]
     739556 739556 = Inl AttributeError
   \<and> filter_orders_by_date sample_isoparse
     [JDict [(str_of ''orderId'', JStr [0xD83D]),
             (str_of ''state'', JStr (str_of ''locked'')),
             (str_of ''createdTime'', JStr (str_of ''not a date''))],
      JDict [(str_of ''state'', JStr (str_of ''locked'')),
             (str_of ''createdTime'', JStr (str_of ''2025-11-01T10:00:00''))]]
     739556 739556 = Inl UnicodeEncodeError"
  by (simp add: filter_orders_by_date_def filter_orders_traced_def order_step_def try_created_def
      sample_isoparse_def encodable_def is_surrogate_def)

text \<open>
  C7, amended. \<open>filter_orders_by_date\<close> returns a list on every list of order records
  in which every order whose \<open>createdTime\<close> does not parse to a naive timestamp has an
  identifier that can be printed. In any list, an order record without \<open>createdTime\<close>
  is passed over without raising, and so is one whose \<open>createdTime\<close> does not parse and
  whose identifier can be printed: the result is the one the list without that order
  gives, so every later order is still processed.
\<close>

theorem filter_orders_by_date_total_on_records:
  "((\<forall>x \<in> set orders. is_dict x \<and> (parses_naive isoparse x \<or> order_id_prints x)) \<longrightarrow>
      (\<exists>r. filter_orders_by_date isoparse orders start_date end_date = Inr r))
   \<and> (map_of d (str_of ''createdTime'') = None \<longrightarrow>
        filter_orders_by_date isoparse (pre @ JDict d # post) start_date end_date =
        filter_orders_by_date isoparse (pre @ post) start_date end_date)
   \<and> (parsed_created isoparse (JDict d) = None \<and> order_id_prints (JDict d) \<longrightarrow>
        filter_orders_by_date isoparse (pre @ JDict d # post) start_date end_date =
        filter_orders_by_date isoparse (pre @ post) start_date end_date)"
proof -
  have a: "(\<forall>x \<in> set orders. is_dict x \<and> (parses_naive isoparse x \<or> order_id_prints x)) \<longrightarrow>
      (\<exists>r. filter_orders_by_date isoparse orders start_date end_date = Inr r)"
  proof
    assume "\<forall>x \<in> set orders. is_dict x \<and> (parses_naive isoparse x \<or> order_id_prints x)"
    from filter_loop_dicts [OF this, of start_date end_date "[]" "[]"]
    show "\<exists>r. filter_orders_by_date isoparse orders start_date end_date = Inr r"
      by (auto simp: filter_orders_by_date_def filter_orders_traced_loop)
  qed
  have m: "map_of d (str_of ''createdTime'') = None \<longrightarrow>
        filter_orders_by_date isoparse (pre @ JDict d # post) start_date end_date =
        filter_orders_by_date isoparse (pre @ post) start_date end_date"
  proof
    assume "map_of d (str_of ''createdTime'') = None"
    then have "order_step isoparse (combine_min start_date) (combine_max end_date) (JDict d) =
        Inr (False, [])"
      by (simp add: order_step_no_created)
    from filter_skip_result [OF this]
    show "filter_orders_by_date isoparse (pre @ JDict d # post) start_date end_date =
        filter_orders_by_date isoparse (pre @ post) start_date end_date"
      by (simp add: filter_orders_by_date_def filter_orders_traced_loop)
  qed
  have b: "parsed_created isoparse (JDict d) = None \<and> order_id_prints (JDict d) \<longrightarrow>
        filter_orders_by_date isoparse (pre @ JDict d # post) start_date end_date =
        filter_orders_by_date isoparse (pre @ post) start_date end_date"
  proof
    assume "parsed_created isoparse (JDict d) = None \<and> order_id_prints (JDict d)"
    then obtain ps where
      "order_step isoparse (combine_min start_date) (combine_max end_date) (JDict d) = Inr (False, ps)"
      using order_step_unparsed by blast
    from filter_skip_result [OF this]
    show "filter_orders_by_date isoparse (pre @ JDict d # post) start_date end_date =
        filter_orders_by_date isoparse (pre @ post) start_date end_date"
      by (simp add: filter_orders_by_date_def filter_orders_traced_loop)
  qed
  from a m b show ?thesis by blast
qed

text \<open>
  C10. An order whose \<open>createdTime\<close> is the empty string is treated like one without the
  field: for both, the round of the loop appends nothing and hands nothing to the
  parser, and in every input list the outcome of the whole filter, with the list of
  values handed to the parser, is the one the list without that order gives.
\<close>

theorem filter_orders_empty_created_like_missing:
  assumes "map_of d (str_of ''createdTime'') = Some (JStr [])"
    and "map_of d' (str_of ''createdTime'') = None"
  shows "order_step isoparse (combine_min start_date) (combine_max end_date) (JDict d) = Inr (False, [])
   \<and> order_step isoparse (combine_min start_date) (combine_max end_date) (JDict d') = Inr (False, [])
   \<and> filter_orders_traced isoparse (pre @ JDict d # post) start_date end_date =
       filter_orders_traced isoparse (pre @ post) start_date end_date
   \<and> filter_orders_traced isoparse (pre @ JDict d' # post) start_date end_date =
       filter_orders_traced isoparse (pre @ post) start_date end_date
   \<and> filter_orders_by_date isoparse (pre @ JDict d # post) start_date end_date =
       filter_orders_by_date isoparse (pre @ JDict d' # post) start_date end_date"
proof -
  have s1: "order_step isoparse (combine_min start_date) (combine_max end_date) (JDict d) = Inr (False, [])"
    using assms(1) by (simp add: order_step_no_created)
  have s2: "order_step isoparse (combine_min start_date) (combine_max end_date) (JDict d') = Inr (False, [])"
    using assms(2) by (simp add: order_step_no_created)
  have t1: "filter_orders_traced isoparse (pre @ JDict d # post) start_date end_date =
       filter_orders_traced isoparse (pre @ post) start_date end_date"
    by (simp add: filter_orders_traced_loop filter_skip_traced [OF s1])
  have t2: "filter_orders_traced isoparse (pre @ JDict d' # post) start_date end_date =
       filter_orders_traced isoparse (pre @ post) start_date end_date"
    by (simp add: filter_orders_traced_loop filter_skip_traced [OF s2])
  from s1 s2 t1 t2 show ?thesis by (simp add: filter_orders_by_date_def)
qed


theorem filter_orders_by_date_spec_witness:
  "list_all is_dict
      [JDict [(str_of ''state'', JStr (str_of ''locked'')),
              (str_of ''createdTime'', JStr (str_of ''2025-11-01T23:59:59.999999''))],
       JDict [(str_of ''state'', JStr (str_of ''pending'')),
              (str_of ''createdTime'', JStr (str_of ''2025-11-01T10:00:00''))],
       JDict [(str_of ''orderId'', JStr (str_of ''A7'')),
              (str_of ''state'', JStr (str_of ''locked'')),
              (str_of ''createdTime'', JStr (str_of ''not a date''))],
       JDict [(str_of ''orderId'', JStr [0xD83D]),
              (str_of ''state'', JStr (str_of ''locked'')),
              (str_of ''createdTime'', JStr (str_of ''2025-11-02T00:00:00''))]]
   \<and> list_all (offset_free sample_isoparse)
      [JDict [(str_of ''state'', JStr (str_of ''locked'')),
              (str_of ''createdTime'', JStr (str_of ''2025-11-01T23:59:59.999999''))],
       JDict [(str_of ''state'', JStr (str_of ''pending'')),
              (str_of ''createdTime'', JStr (str_of ''2025-11-01T10:00:00''))],
       JDict [(str_of ''orderId'', JStr (str_of ''A7'')),
              (str_of ''state'', JStr (str_of ''locked'')),
              (str_of ''createdTime'', JStr (str_of ''not a date''))],
       JDict [(str_of ''orderId'', JStr [0xD83D]),
              (str_of ''state'', JStr (str_of ''locked'')),
              (str_of ''createdTime'', JStr (str_of ''2025-11-02T00:00:00''))]]
   \<and> list_all (\<lambda>x. parses_naive sample_isoparse x \<or> order_id_prints x)
      [JDict [(str_of ''state'', JStr (str_of ''locked'')),
              (str_of ''createdTime'', JStr (str_of ''2025-11-01T23:59:59.999999''))],
       JDict [(str_of ''state'', JStr (str_of ''pending'')),
              (str_of ''createdTime'', JStr (str_of ''2025-11-01T10:00:00''))],
       JDict [(str_of ''orderId'', JStr (str_of ''A7'')),
              (str_of ''state'', JStr (str_of ''locked'')),
              (str_of ''createdTime'', JStr (str_of ''not a date''))],
       JDict [(str_of ''orderId'', JStr [0xD83D]),
              (str_of ''state'', JStr (str_of ''locked'')),
              (str_of ''createdTime'', JStr (str_of ''2025-11-02T00:00:00''))]]
   \<and> sample_isoparse [] = Inl ValueError
   \<and> filter_orders_by_date sample_isoparse
        [JDict [(str_of ''state'', JStr (str_of ''locked'')),
                (str_of ''createdTime'', JStr (str_of ''2025-11-01T23:59:59.999999''))],
         JDict [(str_of ''state'', JStr (str_of ''pending'')),
                (str_of ''createdTime'', JStr (str_of ''2025-11-01T10:00:00''))],
         JDict [(str_of ''orderId'', JStr (str_of ''A7'')),
                (str_of ''state'', JStr (str_of ''locked'')),
                (str_of ''createdTime'', JStr (str_of ''not a date''))],
         JDict [(str_of ''orderId'', JStr [0xD83D]),
                (str_of ''state'', JStr (str_of ''locked'')),
                (str_of ''createdTime'', JStr (str_of ''2025-11-02T00:00:00''))]]
        739556 739556
       = Inr [JDict [(str_of ''state'', JStr (str_of ''locked'')),
                     (str_of ''createdTime'', JStr (str_of ''2025-11-01T23:59:59.999999''))]]"
proof -
  let ?a = "JDict [(str_of ''state'', JStr (str_of ''locked'')),
              (str_of ''createdTime'', JStr (str_of ''2025-11-01T23:59:59.999999''))]"
  let ?b = "JDict [(str_of ''state'', JStr (str_of ''pending'')),
              (str_of ''createdTime'', JStr (str_of ''2025-11-01T10:00:00''))]"
  let ?u = "JDict [(str_of ''orderId'', JStr (str_of ''A7'')),
              (str_of ''state'', JStr (str_of ''locked'')),
              (str_of ''createdTime'', JStr (str_of ''not a date''))]"
  let ?c = "JDict [(str_of ''orderId'', JStr [0xD83D]),
              (str_of ''state'', JStr (str_of ''locked'')),
              (str_of ''createdTime'', JStr (str_of ''2025-11-02T00:00:00''))]"
  have d: "list_all is_dict [?a, ?b, ?u, ?c]" by simp
  have f: "list_all (offset_free sample_isoparse) [?a, ?b, ?u, ?c]"
    by (simp add: offset_free_def parsed_created_def sample_isoparse_def)
  have p: "list_all (\<lambda>x. parses_naive sample_isoparse x \<or> order_id_prints x) [?a, ?b, ?u, ?c]"
    by (simp add: order_id_prints_def parses_naive_def parsed_created_def sample_isoparse_def)
  have h2: "sample_isoparse [] = Inl ValueError" by (simp add: sample_isoparse_def)
  have ia: "included sample_isoparse 739556 739556 ?a"
    by (simp add: included_def state_locked_def parsed_created_def in_range_def sample_isoparse_def
        combine_min_def combine_max_def US_PER_DAY_def)
  have ib: "\<not> included sample_isoparse 739556 739556 ?b"
    by (simp add: included_def state_locked_def)
  have iu: "\<not> included sample_isoparse 739556 739556 ?u"
    by (simp add: included_def state_locked_def parsed_created_def in_range_def sample_isoparse_def)
  have ic: "\<not> included sample_isoparse 739556 739556 ?c"
    by (simp add: included_def state_locked_def parsed_created_def in_range_def sample_isoparse_def
        combine_min_def combine_max_def US_PER_DAY_def)
  have h1: "\<forall>x \<in> set [?a, ?b, ?u, ?c].
      is_dict x \<and> offset_free sample_isoparse x \<and>
      (parses_naive sample_isoparse x \<or> order_id_prints x)"
    using d f p by simp
  show ?thesis
    using d f p h2
      filter_orders_by_date_spec [where orders = "[?a, ?b, ?u, ?c]" and isoparse = sample_isoparse
        and ?e0.0 = ValueError and start_date = 739556 and end_date = 739556, OF h1 h2]
    by (simp add: ia ib iu ic)
qed

theorem filter_orders_by_date_total_on_records_witness:
  "list_all is_dict
      [JDict [(str_of ''state'', JStr (str_of ''locked''))],
       JDict [(str_of ''orderId'', JStr (str_of ''A7'')),
              (str_of ''state'', JStr (str_of ''locked'')),
              (str_of ''createdTime'', JStr (str_of ''not a date''))],
       JDict [(str_of ''state'', JStr (str_of ''locked'')),
              (str_of ''createdTime'', JStr (str_of ''2025-11-01T10:00:00''))]]
   \<and> list_all (\<lambda>x. parses_naive sample_isoparse x \<or> order_id_prints x)
      [JDict [(str_of ''state'', JStr (str_of ''locked''))],
       JDict [(str_of ''orderId'', JStr (str_of ''A7'')),
              (str_of ''state'', JStr (str_of ''locked'')),
              (str_of ''createdTime'', JStr (str_of ''not a date''))],
       JDict [(str_of ''state'', JStr (str_of ''locked'')),
              (str_of ''createdTime'', JStr (str_of ''2025-11-01T10:00:00''))]]
   \<and> map_of [(str_of ''state'', JStr (str_of ''locked''))] (str_of ''createdTime'') = None
   \<and> parsed_created sample_isoparse
        (JDict [(str_of ''orderId'', JStr (str_of ''A7'')),
                (str_of ''state'', JStr (str_of ''locked'')),
                (str_of ''createdTime'', JStr (str_of ''not a date''))]) = None
   \<and> filter_orders_by_date sample_isoparse
        [JDict [(str_of ''state'', JStr (str_of ''locked''))],
         JDict [(str_of ''orderId'', JStr (str_of ''A7'')),
                (str_of ''state'', JStr (str_of ''locked'')),
                (str_of ''createdTime'', JStr (str_of ''not a date''))],
         JDict [(str_of ''state'', JStr (str_of ''locked'')),
                (str_of ''createdTime'', JStr (str_of ''2025-11-01T10:00:00''))]]
        739556 739556
       = Inr [JDict [(str_of ''state'', JStr (str_of ''locked'')),
                     (str_of ''createdTime'', JStr (str_of ''2025-11-01T10:00:00''))]]"
proof -
  let ?m = "[(str_of ''state'', JStr (str_of ''locked''))]"
  let ?u = "[(str_of ''orderId'', JStr (str_of ''A7'')),
             (str_of ''state'', JStr (str_of ''locked'')),
             (str_of ''createdTime'', JStr (str_of ''not a date''))]"
  let ?a = "JDict [(str_of ''state'', JStr (str_of ''locked'')),
              (str_of ''createdTime'', JStr (str_of ''2025-11-01T10:00:00''))]"
  have d: "list_all is_dict [JDict ?m, JDict ?u, ?a]" by simp
  have p: "list_all (\<lambda>x. parses_naive sample_isoparse x \<or> order_id_prints x)
      [JDict ?m, JDict ?u, ?a]"
    by (simp add: order_id_prints_def)
  have h1: "map_of ?m (str_of ''createdTime'') = None" by simp
  have h2: "parsed_created sample_isoparse (JDict ?u) = None"
    by (simp add: parsed_created_def sample_isoparse_def)
  have h3: "order_id_prints (JDict ?u)" by (simp add: order_id_prints_def)
  have r: "filter_orders_by_date sample_isoparse ([] @ [?a]) 739556 739556 = Inr [?a]"
    by (simp add: filter_orders_by_date_def filter_orders_traced_def order_step_def try_created_def
        sample_isoparse_def combine_min_def combine_max_def US_PER_DAY_def)
  show ?thesis
    using d p h1 h2 h3 r
      filter_orders_by_date_total_on_records
        [where orders = "[JDict ?m, JDict ?u, ?a]" and isoparse = sample_isoparse
          and start_date = 739556 and end_date = 739556 and d = ?m and pre = "[]"
          and post = "[JDict ?u, ?a]"]
      filter_orders_by_date_total_on_records
        [where orders = "[JDict ?m, JDict ?u, ?a]" and isoparse = sample_isoparse
          and start_date = 739556 and end_date = 739556 and d = ?u and pre = "[]"
          and post = "[?a]"]
    by simp
qed

theorem filter_orders_empty_created_like_missing_witness:
  "map_of [(str_of ''state'', JStr (str_of ''locked'')), (str_of ''createdTime'', JStr [])]
      (str_of ''createdTime'') = Some (JStr [])
   \<and> map_of [(str_of ''state'', JStr (str_of ''locked''))] (str_of ''createdTime'') = None
   \<and> filter_orders_traced sample_isoparse
        ([] @ JDict [(str_of ''state'', JStr (str_of ''locked'')), (str_of ''createdTime'', JStr [])] #
           [JDict [(str_of ''state'', JStr (str_of ''locked'')),
                   (str_of ''createdTime'', JStr (str_of ''2025-11-01T10:00:00''))]])
        739556 739556
       = Inr ([JDict [(str_of ''state'', JStr (str_of ''locked'')),
                      (str_of ''createdTime'', JStr (str_of ''2025-11-01T10:00:00''))]],
              [JStr (str_of ''2025-11-01T10:00:00'')])
   \<and> filter_orders_traced sample_isoparse
        ([] @ JDict [(str_of ''state'', JStr (str_of ''locked''))] #
           [JDict [(str_of ''state'', JStr (str_of ''locked'')),
                   (str_of ''createdTime'', JStr (str_of ''2025-11-01T10:00:00''))]])
        739556 739556
       = Inr ([JDict [(str_of ''state'', JStr (str_of ''locked'')),
                      (str_of ''createdTime'', JStr (str_of ''2025-11-01T10:00:00''))]],
              [JStr (str_of ''2025-11-01T10:00:00'')])"
proof -
  let ?e = "[(str_of ''state'', JStr (str_of ''locked'')), (str_of ''createdTime'', JStr [])]"
  let ?m = "[(str_of ''state'', JStr (str_of ''locked''))]"
  let ?a = "JDict [(str_of ''state'', JStr (str_of ''locked'')),
              (str_of ''createdTime'', JStr (str_of ''2025-11-01T10:00:00''))]"
  have h1: "map_of ?e (str_of ''createdTime'') = Some (JStr [])" by simp
  have h2: "map_of ?m (str_of ''createdTime'') = None" by simp
  have r: "filter_orders_traced sample_isoparse ([] @ [?a]) 739556 739556 =
      Inr ([?a], [JStr (str_of ''2025-11-01T10:00:00'')])"
    by (simp add: filter_orders_traced_def order_step_def try_created_def
        sample_isoparse_def combine_min_def combine_max_def US_PER_DAY_def)
  show ?thesis
    using h1 h2 r
      filter_orders_empty_created_like_missing
        [where d = ?e and d' = ?m and isoparse = sample_isoparse and start_date = 739556
          and end_date = 739556 and pre = "[]" and post = "[?a]"]
    by simp
qed

section \<open>Properties of the date resolver and of the analyst\<close>

lemma date_field_subscript:
  "date_field p dates k =
     (case py_subscript dates k of
        Inl e \<Rightarrow> None
      | Inr v \<Rightarrow> (case isoparse_value p v of Inl e \<Rightarrow> None | Inr dt \<Rightarrow> Some (date_of dt)))"
proof (cases dates)
  case (JDict d)
  show ?thesis
  proof (cases "map_of d k")
    case None
    with JDict show ?thesis by (simp add: date_field_def)
  next
    case (Some v)
    with JDict show ?thesis
      by (cases v) (simp_all add: date_field_def split: sum.splits)
  qed
qed (simp_all add: date_field_def)


lemma date_range_try_usable:
  assumes "reply = Inr (Some reply_text)" and "jl (clean_reply reply_text) = Inr dates"
    and "date_field p dates (str_of ''start_date'') = Some sd"
    and "date_field p dates (str_of ''end_date'') = Some ed"
  shows "date_range_try p jl reply = Inr (sd, ed)"
  using assms
  by (auto simp: date_range_try_def date_field_subscript split: sum.splits option.splits)



text \<open>
  C9. When the reply, after \<open>strip\<close> and the removal of the code-fence markers, loads
  as a JSON object whose fields \<open>start_date\<close> and \<open>end_date\<close> hold strings that parse as
  dates, \<open>get_date_range_from_llm\<close> returns exactly that pair of dates.
\<close>

theorem get_date_range_from_llm_parsed:
  assumes "generate_content today user_query = Inr (Some reply_text)"
    and "json_loads (clean_reply reply_text) = Inr dates"
    and "date_field isoparse dates (str_of ''start_date'') = Some start_date"
    and "date_field isoparse dates (str_of ''end_date'') = Some end_date"
  shows "get_date_range_from_llm isoparse json_loads generate_content today today_in_handler user_query
           = (start_date, end_date)"
  using assms
    date_range_try_usable [of "generate_content today user_query" reply_text json_loads dates isoparse
      start_date end_date]
  by (simp add: get_date_range_from_llm_def)

lemma clean_sample_reply: "clean_reply sample_reply = [CHR 0x0A] @ sample_document @ [CHR 0x0A]"
  by (simp add: clean_reply_def sample_reply_def FENCE_def py_strip_def is_space_def sample_document_def)

theorem get_date_range_from_llm_parsed_witness:
  "sample_service 739556 ''today'' = Inr (Some sample_reply)
   \<and> sample_json_loads (clean_reply sample_reply) =
       Inr (JDict [(str_of ''start_date'', JStr (str_of ''2025-11-01'')),
                   (str_of ''end_date'', JStr (str_of ''2025-11-01''))])
   \<and> date_field sample_isoparse
        (JDict [(str_of ''start_date'', JStr (str_of ''2025-11-01'')),
                (str_of ''end_date'', JStr (str_of ''2025-11-01''))]) (str_of ''start_date'')
       = Some 739556
   \<and> date_field sample_isoparse
        (JDict [(str_of ''start_date'', JStr (str_of ''2025-11-01'')),
                (str_of ''end_date'', JStr (str_of ''2025-11-01''))]) (str_of ''end_date'')
       = Some 739556
   \<and> get_date_range_from_llm sample_isoparse sample_json_loads sample_service
        739556 739557 ''today'' = (739556, 739556)"
proof -
  let ?doc = "JDict [(str_of ''start_date'', JStr (str_of ''2025-11-01'')),
                     (str_of ''end_date'', JStr (str_of ''2025-11-01''))]"
  have h1: "sample_service 739556 ''today'' = Inr (Some sample_reply)"
    by (simp add: sample_service_def)
  have h2: "sample_json_loads (clean_reply sample_reply) = Inr ?doc"
    by (simp add: clean_sample_reply sample_json_loads_def)
  have h3: "date_field sample_isoparse ?doc (str_of ''start_date'') = Some 739556"
    by (simp add: date_field_def sample_isoparse_def US_PER_DAY_def)
  have h4: "date_field sample_isoparse ?doc (str_of ''end_date'') = Some 739556"
    by (simp add: date_field_def sample_isoparse_def US_PER_DAY_def)
  show ?thesis
    using h1 h2 h3 h4
      get_date_range_from_llm_parsed [where generate_content = sample_service and today = 739556
        and user_query = "''today''" and reply_text = sample_reply and json_loads = sample_json_loads
        and dates = ?doc and isoparse = sample_isoparse and start_date = 739556 and end_date = 739556
        and today_in_handler = 739557]
    by simp
qed



end
